theory Spec2Isabelle
  imports
    Main
    "HOL-Library.Word"
    "HOL-Library.Sublist"
    "HOL-Library.Char_ord"
    "HOL-Library.List_Lexorder"
begin

section \<open>Strings and errors\<close>

text \<open>
  A JavaScript string is a sequence of UTF-16 code units. It is modelled as a \<open>string\<close>
  (a list of \<open>char\<close>), one \<open>char\<close> per code unit, which covers the code units
  0 to 255 (ASCII and Latin-1); surrogate pairs are outside the model. A value that may
  be \<open>undefined\<close> is an \<open>option\<close>. What the source throws is a value of type
  \<open>error\<close>, and a call that may throw returns \<open>error + 'a\<close>.
\<close>

datatype error =
    RangeError
  | QuotaExceededError
  | StorageError string
  | TransportError string

section \<open>services/PasswordGenerator.ts\<close>

subsection \<open>The generation policy (IPasswordGeneratorOptions)\<close>

record IPasswordGeneratorOptions =
  length_opt :: int
  includeUppercase :: bool
  includeLowercase :: bool
  includeNumbers :: bool
  includeSymbols :: bool

subsection \<open>BasePasswordGenerator.calculateStrength\<close>

definition in_range :: "char \<Rightarrow> char \<Rightarrow> char \<Rightarrow> bool" where
  "in_range lo hi c \<longleftrightarrow> (of_char lo :: nat) \<le> of_char c \<and> (of_char c :: nat) \<le> of_char hi"

text \<open>The four regular expressions of the source, tested against the whole string.\<close>

definition test_lower :: "string \<Rightarrow> bool" where
  "test_lower password = list_ex (in_range CHR ''a'' CHR ''z'') password"

definition test_upper :: "string \<Rightarrow> bool" where
  "test_upper password = list_ex (in_range CHR ''A'' CHR ''Z'') password"

definition test_digit :: "string \<Rightarrow> bool" where
  "test_digit password = list_ex (in_range CHR ''0'' CHR ''9'') password"

definition test_other :: "string \<Rightarrow> bool" where
  "test_other password =
     list_ex (\<lambda>c. \<not> in_range CHR ''a'' CHR ''z'' c \<and> \<not> in_range CHR ''A'' CHR ''Z'' c
                  \<and> \<not> in_range CHR ''0'' CHR ''9'' c) password"

text \<open>
  \<open>password.length * 0.7\<close> is a multiplication of IEEE 754 doubles. The literal
  \<open>0.7\<close> is the double \<open>double_0_7 / 2 ^ 53\<close>; the length is an integer below \<open>2 ^ 53\<close>
  and so a double itself; the product is the exact product rounded to 53 significant
  bits, ties to even. All values stay far from overflow and from the subnormal range, so
  the product is \<open>times_0_7 n / 2 ^ 53\<close>, computed here on the numerators.
\<close>

definition double_0_7 :: nat where
  "double_0_7 = 6305039478318694"

fun bit_length :: "nat \<Rightarrow> nat" where
  "bit_length n = (if n = 0 then 0 else Suc (bit_length (n div 2)))"

definition round_to_double :: "nat \<Rightarrow> nat" where
  "round_to_double m =
     (if bit_length m \<le> 53 then m
      else let s = bit_length m - 53;
               q = m div 2 ^ s;
               r = m mod 2 ^ s;
               half = 2 ^ (s - 1)
           in (if half < r \<or> (r = half \<and> odd q) then q + 1 else q) * 2 ^ s)"

definition times_0_7 :: "nat \<Rightarrow> nat" where
  "times_0_7 n = round_to_double (n * double_0_7)"

text \<open>\<open>uniqueChars > password.length * 0.7\<close>, both sides scaled by \<open>2 ^ 53\<close>.\<close>

definition exceeds_times_0_7 :: "nat \<Rightarrow> nat \<Rightarrow> bool" where
  "exceeds_times_0_7 uniqueChars n \<longleftrightarrow> times_0_7 n < uniqueChars * 2 ^ 53"

definition calculateStrength :: "string \<Rightarrow> int" where
  "calculateStrength password =
     (if password = [] then 0
      else
        let score = 0;
            score = (if 8 \<le> length password then score + 20 else score);
            score = (if 12 \<le> length password then score + 10 else score);
            score = (if 16 \<le> length password then score + 10 else score);
            score = (if test_lower password then score + 15 else score);
            score = (if test_upper password then score + 15 else score);
            score = (if test_digit password then score + 15 else score);
            score = (if test_other password then score + 15 else score);
            uniqueChars = length (remdups password);
            score = (if exceeds_times_0_7 uniqueChars (length password) then score + 10 else score)
        in min 100 score)"

subsection \<open>BasePasswordGenerator.getStrengthLevel\<close>

datatype StrengthLevel = Weak | Fair | Good | Strong

definition getStrengthLevel :: "int \<Rightarrow> StrengthLevel" where
  "getStrengthLevel strength =
     (if strength < 30 then Weak
      else if strength < 60 then Fair
      else if strength < 80 then Good
      else Strong)"

subsection \<open>SecurePasswordGenerator.getCharacterSet\<close>

definition lowercase_chars :: string where
  "lowercase_chars = ''abcdefghijklmnopqrstuvwxyz''"

definition uppercase_chars :: string where
  "uppercase_chars = ''ABCDEFGHIJKLMNOPQRSTUVWXYZ''"

definition number_chars :: string where
  "number_chars = ''0123456789''"

definition symbol_chars :: string where
  "symbol_chars = ''!@#$%^&*()_+-=[]{}|;:,.<>?''"

definition getCharacterSet :: "IPasswordGeneratorOptions \<Rightarrow> string" where
  "getCharacterSet options =
     (let charset = [];
          charset = (if includeLowercase options then charset @ lowercase_chars else charset);
          charset = (if includeUppercase options then charset @ uppercase_chars else charset);
          charset = (if includeNumbers options then charset @ number_chars else charset);
          charset = (if includeSymbols options then charset @ symbol_chars else charset)
      in if charset = [] then lowercase_chars else charset)"

subsection \<open>SecurePasswordGenerator.generatePassword\<close>

text \<open>
  The random source is the function \<open>random\<close>: \<open>random i\<close> is the 32-bit value that
  \<open>crypto.getRandomValues\<close> writes at index \<open>i\<close> of the array. The policy's length is
  an integer. \<open>new Uint32Array(n)\<close> throws a RangeError for a length that is negative
  or above \<open>2 ^ 53 - 1\<close> (an engine refuses a smaller length that it cannot allocate in
  the same way; where that limit lies is not modelled), and \<open>crypto.getRandomValues\<close> a
  QuotaExceededError for an array of more than 65536 bytes.
\<close>

function generate_loop :: "string \<Rightarrow> 32 word list \<Rightarrow> nat \<Rightarrow> nat \<Rightarrow> string \<Rightarrow> string" where
  "generate_loop charset array n i password =
     (if i < n
      then generate_loop charset array n (Suc i)
             (password @ [charset ! (unat (array ! i) mod length charset)])
      else password)"
  by pat_completeness auto
termination
  by (relation "measure (\<lambda>(charset, array, n, i, password). n - i)") auto

declare generate_loop.simps [simp del]

definition generatePassword :: "(nat \<Rightarrow> 32 word) \<Rightarrow> IPasswordGeneratorOptions \<Rightarrow> error + string" where
  "generatePassword random options =
     (let charset = getCharacterSet options in
      if length_opt options < 0 \<or> 9007199254740991 < length_opt options then Inl RangeError
      else if 65536 < 4 * length_opt options then Inl QuotaExceededError
      else
        let n = nat (length_opt options);
            array = map random [0..<n]
        in Inr (generate_loop charset array n 0 []))"

section \<open>The clock\<close>

text \<open>
  The wall clock is an input of the program. A \<open>clock\<close> is the sequence of the readings
  it will deliver, in milliseconds since the epoch, one per read: \<open>Date.now()\<close> and
  \<open>new Date()\<close> each take the next one.
\<close>

type_synonym clock = "nat \<Rightarrow> nat"

definition read_clock :: "clock \<Rightarrow> nat \<times> clock" where
  "read_clock c = (c 0, \<lambda>k. c (Suc k))"

text \<open>\<open>Number.prototype.toString\<close> of a non-negative integer: its decimal digits.\<close>

fun digits :: "nat \<Rightarrow> string" where
  "digits n =
     (if n < 10 then [''0123456789'' ! n]
      else digits (n div 10) @ [''0123456789'' ! (n mod 10)])"

definition pad :: "nat \<Rightarrow> nat \<Rightarrow> string" where
  "pad w n = replicate (w - length (digits n)) CHR ''0'' @ digits n"

text \<open>
  \<open>Date.prototype.toISOString\<close> of an instant at or after the epoch:
  \<open>YYYY-MM-DDTHH:mm:ss.sssZ\<close> in UTC, the year with six digits and a sign beyond 9999.
  The date of a day number follows the proleptic Gregorian calendar.
\<close>

definition civil_from_days :: "nat \<Rightarrow> nat \<times> nat \<times> nat" where
  "civil_from_days days =
     (let z = days + 719468;
          era = z div 146097;
          doe = z mod 146097;
          yoe = (doe - doe div 1460 + doe div 36524 - doe div 146096) div 365;
          y = yoe + era * 400;
          doy = doe - (365 * yoe + yoe div 4 - yoe div 100);
          mp = (5 * doy + 2) div 153;
          d = doy - (153 * mp + 2) div 5 + 1;
          m = (if mp < 10 then mp + 3 else mp - 9)
      in ((if m \<le> 2 then y + 1 else y), m, d))"

definition toISOString :: "nat \<Rightarrow> string" where
  "toISOString t =
     (let (y, m, d) = civil_from_days (t div 86400000);
          r = t mod 86400000
      in (if y \<le> 9999 then pad 4 y else ''+'' @ pad 6 y) @ ''-'' @ pad 2 m @ ''-'' @ pad 2 d
         @ ''T'' @ pad 2 (r div 3600000) @ '':'' @ pad 2 (r div 60000 mod 60)
         @ '':'' @ pad 2 (r div 1000 mod 60) @ ''.'' @ pad 3 (r mod 1000) @ ''Z'')"

section \<open>models/Password: PasswordEntry\<close>

text \<open>
  The class \<open>PasswordEntry\<close> and the interface \<open>IPasswordEntry\<close> it implements have
  the same seven fields, so one record type serves for both. The fields \<open>id\<close> and
  \<open>notes\<close> are named \<open>id_field\<close> and \<open>notes_field\<close>.
\<close>

record PasswordEntry =
  id_field :: string
  website :: string
  username :: string
  password :: string
  notes_field :: "string option"
  createdAt :: string
  updatedAt :: string

type_synonym IPasswordEntry = PasswordEntry

text \<open>
  The constructor. \<open>id || Date.now().toString()\<close> takes the given \<open>id\<close> unless it is
  \<open>undefined\<close> or the empty string, and reads the clock only then.
\<close>

definition PasswordEntry_new ::
  "string \<Rightarrow> string \<Rightarrow> string \<Rightarrow> string option \<Rightarrow> string option \<Rightarrow> clock \<Rightarrow> PasswordEntry \<times> clock" where
  "PasswordEntry_new website' username' password' notes' id' c0 =
     (let (ident, c1) =
            (case id' of
               Some s \<Rightarrow> if s = [] then (let (t, c) = read_clock c0 in (digits t, c)) else (s, c0)
             | None \<Rightarrow> (let (t, c) = read_clock c0 in (digits t, c)));
          (t_created, c2) = read_clock c1;
          (t_updated, c3) = read_clock c2
      in (\<lparr>id_field = ident, website = website', username = username', password = password',
            notes_field = notes', createdAt = toISOString t_created, updatedAt = toISOString t_updated\<rparr>,
          c3))"

text \<open>
  The argument of \<open>update\<close>. Each of its four keys is absent, or present with a
  value that is a string or \<open>undefined\<close> (the type \<open>Partial\<close> admits both).
  Reading a key, as in \<open>data.website\<close>, gives \<open>undefined\<close> for an absent key
  and the value of a present one.
\<close>

datatype 'a key = Absent | Present "'a option"

definition read_key :: "'a key \<Rightarrow> 'a option" where
  "read_key k = (case k of Absent \<Rightarrow> None | Present v \<Rightarrow> v)"

record PasswordUpdate =
  website_key :: "string key"
  username_key :: "string key"
  password_key :: "string key"
  notes_key :: "string key"

definition PasswordEntry_update :: "PasswordUpdate \<Rightarrow> clock \<Rightarrow> PasswordEntry \<Rightarrow> PasswordEntry \<times> clock" where
  "PasswordEntry_update data c0 this =
     (let this = (case read_key (website_key data) of Some v \<Rightarrow> this\<lparr>website := v\<rparr>
                      | None \<Rightarrow> this);
          this = (case read_key (username_key data) of Some v \<Rightarrow> this\<lparr>username := v\<rparr>
                      | None \<Rightarrow> this);
          this = (case read_key (password_key data) of Some v \<Rightarrow> this\<lparr>password := v\<rparr>
                      | None \<Rightarrow> this);
          this = (case read_key (notes_key data) of Some v \<Rightarrow> this\<lparr>notes_field := Some v\<rparr>
                      | None \<Rightarrow> this);
          (t, c1) = read_clock c0
      in (this\<lparr>updatedAt := toISOString t\<rparr>, c1))"

definition toJSON :: "PasswordEntry \<Rightarrow> IPasswordEntry" where
  "toJSON this =
     \<lparr>id_field = id_field this, website = website this, username = username this,
      password = password this, notes_field = notes_field this, createdAt = createdAt this,
      updatedAt = updatedAt this\<rparr>"

definition fromJSON :: "IPasswordEntry \<Rightarrow> clock \<Rightarrow> PasswordEntry \<times> clock" where
  "fromJSON data c0 =
     (let (entry, c1) =
            PasswordEntry_new (website data) (username data) (password data) (notes_field data)
              (Some (id_field data)) c0
      in (entry\<lparr>updatedAt := updatedAt data\<rparr>, c1))"

section \<open>String operations of the search\<close>

text \<open>
  \<open>String.prototype.trim\<close> strips white space and line terminators from both ends; among
  the code units 0 to 255 these are TAB, LF, VT, FF, CR, space and the no-break space.
\<close>

definition is_whitespace :: "char \<Rightarrow> bool" where
  "is_whitespace c \<longleftrightarrow> (of_char c :: nat) \<in> set [9, 10, 11, 12, 13, 32, 160]"

definition trim :: "string \<Rightarrow> string" where
  "trim s = rev (dropWhile is_whitespace (rev (dropWhile is_whitespace s)))"

text \<open>
  \<open>String.prototype.toLowerCase\<close>: among the code units 0 to 255 the upper-case letters
  are A to Z and the Latin-1 letters 192 to 222 without the multiplication sign 215; each
  one's lower-case letter is 32 higher, that is, the same code with bit 5 set.
\<close>

definition is_uppercase :: "char \<Rightarrow> bool" where
  "is_uppercase c \<longleftrightarrow>
     (let n = (of_char c :: nat) in (65 \<le> n \<and> n \<le> 90) \<or> (192 \<le> n \<and> n \<le> 222 \<and> n \<noteq> 215))"

definition toLowerCase_char :: "char \<Rightarrow> char" where
  "toLowerCase_char c =
     (if is_uppercase c
      then (case c of Char b0 b1 b2 b3 b4 b5 b6 b7 \<Rightarrow> Char b0 b1 b2 b3 b4 True b6 b7)
      else c)"

definition toLowerCase :: "string \<Rightarrow> string" where
  "toLowerCase s = map toLowerCase_char s"

text \<open>\<open>s.includes(t)\<close>: \<open>t\<close> occurs in \<open>s\<close> as a contiguous run of code units.\<close>

definition includes_str :: "string \<Rightarrow> string \<Rightarrow> bool" where
  "includes_str s t \<longleftrightarrow> sublist t s"

section \<open>services/StorageService\<close>

text \<open>
  A persistence backend has a state of some type \<open>'b\<close>. Its \<open>savePasswords\<close> takes the
  entries and the backend's state, and returns what it throws, if anything, and the
  state it leaves.
\<close>

type_synonym 'b savePasswords = "PasswordEntry list \<Rightarrow> 'b \<Rightarrow> error option \<times> 'b"

text \<open>
  The browser's \<open>localStorage\<close>, as far as \<open>LocalStorageService\<close> uses it: the value
  under the key \<open>secure_pass_passwords\<close> (the JSON array, as the list of plain records
  it encodes), for which values \<open>setItem\<close> throws (quota exceeded, privacy mode),
  and what has been written to the console.
\<close>

record LocalStorage =
  item :: "IPasswordEntry list option"
  setItem_throws :: "IPasswordEntry list \<Rightarrow> bool"
  console :: "string list"

definition handleError :: "string \<Rightarrow> LocalStorage \<Rightarrow> LocalStorage" where
  "handleError operation ls = ls\<lparr>console := console ls @ [''Error during '' @ operation @ '':'']\<rparr>"

definition LocalStorageService_savePasswords :: "LocalStorage savePasswords" where
  "LocalStorageService_savePasswords passwords' ls =
     (let serializedData = map toJSON passwords' in
      if setItem_throws ls serializedData
      then (None, handleError ''saving passwords'' ls)
      else (None, ls\<lparr>item := Some serializedData\<rparr>))"

section \<open>services/PasswordManager\<close>

text \<open>
  The manager's state: the in-memory array and the state of the backend it was given.
  An operation returns its outcome (\<open>Inl\<close>: the error that leaves the operation),
  the state after it, and the clock where it reads the clock.
\<close>

record 'b PasswordManager =
  passwords :: "PasswordEntry list"
  storage :: 'b

record PasswordData =
  data_website :: string
  data_username :: string
  data_password :: string
  data_notes :: "string option"

definition Manager_savePasswords :: "'b savePasswords \<Rightarrow> 'b PasswordManager \<Rightarrow> error option \<times> 'b PasswordManager" where
  "Manager_savePasswords storageService m =
     (let (thrown, b) = storageService (passwords m) (storage m) in (thrown, m\<lparr>storage := b\<rparr>))"

definition getAllPasswords :: "'b PasswordManager \<Rightarrow> PasswordEntry list" where
  "getAllPasswords m = passwords m"

definition addPassword ::
  "'b savePasswords \<Rightarrow> PasswordData \<Rightarrow> clock \<Rightarrow> 'b PasswordManager
     \<Rightarrow> (error + PasswordEntry) \<times> 'b PasswordManager \<times> clock" where
  "addPassword storageService passwordData c0 m =
     (let (newPassword, c1) =
            PasswordEntry_new (data_website passwordData) (data_username passwordData)
              (data_password passwordData) (data_notes passwordData) None c0;
          m1 = m\<lparr>passwords := passwords m @ [newPassword]\<rparr>;
          (thrown, m2) = Manager_savePasswords storageService m1
      in ((case thrown of Some e \<Rightarrow> Inl e | None \<Rightarrow> Inr newPassword), m2, c1))"

text \<open>
  \<open>updatePassword\<close> changes the first entry with the id in place; the entries of the
  array are separate objects, so no other entry changes.
\<close>

fun update_first :: "('a \<Rightarrow> bool) \<Rightarrow> 'a \<Rightarrow> 'a list \<Rightarrow> 'a list" where
  "update_first P y [] = []"
| "update_first P y (x # xs) = (if P x then y # xs else x # update_first P y xs)"

definition updatePassword ::
  "'b savePasswords \<Rightarrow> string \<Rightarrow> PasswordUpdate \<Rightarrow> clock \<Rightarrow> 'b PasswordManager
     \<Rightarrow> (error + PasswordEntry option) \<times> 'b PasswordManager \<times> clock" where
  "updatePassword storageService id' passwordData c0 m =
     (case find (\<lambda>p. id_field p = id') (passwords m) of
        None \<Rightarrow> (Inr None, m, c0)
      | Some found \<Rightarrow>
          (let (updated, c1) = PasswordEntry_update passwordData c0 found;
               m1 = m\<lparr>passwords := update_first (\<lambda>p. id_field p = id') updated (passwords m)\<rparr>;
               (thrown, m2) = Manager_savePasswords storageService m1
           in ((case thrown of Some e \<Rightarrow> Inl e | None \<Rightarrow> Inr (Some updated)), m2, c1)))"

definition deletePassword ::
  "'b savePasswords \<Rightarrow> string \<Rightarrow> 'b PasswordManager \<Rightarrow> (error + bool) \<times> 'b PasswordManager" where
  "deletePassword storageService id' m =
     (let initialLength = length (passwords m);
          m1 = m\<lparr>passwords := filter (\<lambda>p. id_field p \<noteq> id') (passwords m)\<rparr>
      in if length (passwords m1) < initialLength
         then (let (thrown, m2) = Manager_savePasswords storageService m1
               in ((case thrown of Some e \<Rightarrow> Inl e | None \<Rightarrow> Inr True), m2))
         else (Inr False, m1))"

definition searchPasswords :: "string \<Rightarrow> 'b PasswordManager \<Rightarrow> PasswordEntry list" where
  "searchPasswords searchTerm m =
     (if trim searchTerm = [] then getAllPasswords m
      else
        let term = toLowerCase searchTerm in
        filter (\<lambda>p. includes_str (toLowerCase (website p)) term
                   \<or> includes_str (toLowerCase (username p)) term)
          (passwords m))"

section \<open>services/PasswordAPIService\<close>

text \<open>
  The network-backed service. What the server answers to the list request is an input:
  \<open>Inl\<close> when \<open>makeRequest\<close> throws (no connection, a status that is not ok),
  \<open>Inr\<close> the list of plain records otherwise.
\<close>

fun fromJSON_all :: "IPasswordEntry list \<Rightarrow> clock \<Rightarrow> PasswordEntry list \<times> clock" where
  "fromJSON_all [] c = ([], c)"
| "fromJSON_all (data # rest) c =
     (let (entry, c1) = fromJSON data c;
          (entries, c2) = fromJSON_all rest c1
      in (entry # entries, c2))"

definition api_getAllPasswords ::
  "error + IPasswordEntry list \<Rightarrow> clock \<Rightarrow> (error + PasswordEntry list) \<times> clock" where
  "api_getAllPasswords response c0 =
     (case response of
        Inl e \<Rightarrow> (Inl e, c0)
      | Inr data \<Rightarrow> (let (entries, c1) = fromJSON_all data c0 in (Inr entries, c1)))"

definition api_searchPasswords ::
  "error + IPasswordEntry list \<Rightarrow> string \<Rightarrow> clock \<Rightarrow> (error + PasswordEntry list) \<times> clock" where
  "api_searchPasswords response searchTerm c0 =
     (case api_getAllPasswords response c0 of
        (Inl e, c1) \<Rightarrow> (Inl e, c1)
      | (Inr allPasswords, c1) \<Rightarrow>
          if trim searchTerm = [] then (Inr allPasswords, c1)
          else
            let lowerSearchTerm = toLowerCase searchTerm in
            (Inr (filter (\<lambda>p. includes_str (toLowerCase (website p)) lowerSearchTerm
                             \<or> includes_str (toLowerCase (username p)) lowerSearchTerm
                             \<or> (case notes_field p of
                                   None \<Rightarrow> False
                                 | Some n \<Rightarrow> includes_str (toLowerCase n) lowerSearchTerm))
                    allPasswords),
             c1))"

section \<open>Notions of the specification\<close>

text \<open>
  The additive heuristic in the specification's words: the length bonuses, 15 for each
  character class present, 10 when the number of distinct characters exceeds 70 percent
  of the length, the sum clamped to the range 0 to 100.
\<close>

definition spec_score :: "string \<Rightarrow> int" where
  "spec_score pw =
     max 0 (min 100
       ((if 8 \<le> length pw then 20 else 0)
        + (if 12 \<le> length pw then 10 else 0)
        + (if 16 \<le> length pw then 10 else 0)
        + (if test_lower pw then 15 else 0)
        + (if test_upper pw then 15 else 0)
        + (if test_digit pw then 15 else 0)
        + (if test_other pw then 15 else 0)
        + (if 7 * length pw < 10 * card (set pw) then 10 else 0)))"

text \<open>
  The double-precision product \<open>n * 0.7\<close> has the same integer part as the exact
  \<open>7 * n / 10\<close>.
\<close>

definition product_exact :: "nat \<Rightarrow> bool" where
  "product_exact n \<longleftrightarrow> times_0_7 n div 2 ^ 53 = 7 * n div 10"

text \<open>A search term that is empty or consists of white space only.\<close>

definition whitespace_only :: "string \<Rightarrow> bool" where
  "whitespace_only t \<longleftrightarrow> list_all is_whitespace t"

text \<open>
  \<open>s\<close> contains \<open>t\<close> as a case-insensitive substring: at some position of \<open>s\<close> the next
  \<open>length t\<close> characters equal \<open>t\<close> up to the case of the letters.
\<close>

definition equal_ignoring_case :: "string \<Rightarrow> string \<Rightarrow> bool" where
  "equal_ignoring_case u t \<longleftrightarrow> toLowerCase u = toLowerCase t"

definition contains_ignoring_case :: "string \<Rightarrow> string \<Rightarrow> bool" where
  "contains_ignoring_case s t \<longleftrightarrow>
     list_ex (\<lambda>i. i + length t \<le> length s \<and> equal_ignoring_case (take (length t) (drop i s)) t)
       [0..<Suc (length s)]"

text \<open>The entry that \<open>addPassword\<close> constructs from its argument.\<close>

abbreviation constructed :: "PasswordData \<Rightarrow> clock \<Rightarrow> PasswordEntry" where
  "constructed d c \<equiv>
     fst (PasswordEntry_new (data_website d) (data_username d) (data_password d) (data_notes d)
            None c)"

section \<open>Concrete inputs\<close>

text \<open>
  The policy with length 16 and all four categories; a password of 90 characters, 63 of
  them distinct (26 lower-case letters, 10 digits, 27 symbols, then 27 times the letter a).
\<close>

definition all_categories_16 :: IPasswordGeneratorOptions where
  "all_categories_16 =
     \<lparr>length_opt = 16, includeUppercase = True, includeLowercase = True,
      includeNumbers = True, includeSymbols = True\<rparr>"

definition ninety_chars :: string where
  "ninety_chars = lowercase_chars @ number_chars @ symbol_chars @ ''~'' @ replicate 27 CHR ''a''"

text \<open>
  Clocks that stand still: at 2024-01-01T00:00:00.000Z, at 2026-01-01T00:00:00.000Z, and
  one millisecond before the latter.
\<close>

definition clock_2024 :: clock where
  "clock_2024 = (\<lambda>k. 1704067200000)"

definition clock_2026 :: clock where
  "clock_2026 = (\<lambda>k. 1767225600000)"

definition clock_set_back :: clock where
  "clock_set_back = (\<lambda>k. 1767225599999)"

definition github_data :: PasswordData where
  "github_data =
     \<lparr>data_website = ''GitHub'', data_username = ''alice'', data_password = ''hunter2'',
      data_notes = None\<rparr>"

definition gitlab_data :: PasswordData where
  "gitlab_data =
     \<lparr>data_website = ''GitLab'', data_username = ''bob'', data_password = ''swordfish'',
      data_notes = None\<rparr>"

text \<open>The entry the constructor builds from \<open>github_data\<close> on the first of January 2024.\<close>

definition github_entry :: PasswordEntry where
  "github_entry = constructed github_data clock_2024"

definition work_entry :: PasswordEntry where
  "work_entry =
     \<lparr>id_field = ''1704067200000'', website = ''GitHub'', username = ''alice'',
      password = ''hunter2'', notes_field = Some ''work account'',
      createdAt = ''2024-01-01T00:00:00.000Z'', updatedAt = ''2024-01-01T00:00:00.000Z''\<rparr>"

definition empty_update :: PasswordUpdate where
  "empty_update =
     \<lparr>website_key = Absent, username_key = Absent, password_key = Absent,
      notes_key = Absent\<rparr>"

text \<open>
  A backend whose \<open>savePasswords\<close> throws, and a \<open>localStorage\<close> whose \<open>setItem\<close>
  throws for every value.
\<close>

definition throwing_save :: "error \<Rightarrow> unit savePasswords" where
  "throwing_save e passwords' b = (Some e, b)"

definition full_localStorage :: LocalStorage where
  "full_localStorage = \<lparr>item = None, setItem_throws = (\<lambda>data. True), console = []\<rparr>"

section \<open>Properties of the generator\<close>

lemma getCharacterSet_nonempty: "getCharacterSet options \<noteq> []"
  by (simp add: getCharacterSet_def Let_def lowercase_chars_def uppercase_chars_def
      number_chars_def symbol_chars_def)

text \<open>
  C9. With all four category flags false, \<open>getCharacterSet\<close> returns exactly the 26
  lowercase letters a to z: the fallback, neither a failure nor an empty alphabet.
\<close>

theorem getCharacterSet_fallback:
  assumes "\<not> includeUppercase options" and "\<not> includeLowercase options"
    and "\<not> includeNumbers options" and "\<not> includeSymbols options"
  shows "getCharacterSet options = ''abcdefghijklmnopqrstuvwxyz''
       \<and> length (getCharacterSet options) = 26
       \<and> distinct (getCharacterSet options)"
  using assms by (simp add: getCharacterSet_def lowercase_chars_def)

theorem getCharacterSet_fallback_witness:
  "getCharacterSet \<lparr>length_opt = 16, includeUppercase = False, includeLowercase = False,
      includeNumbers = False, includeSymbols = False\<rparr> = ''abcdefghijklmnopqrstuvwxyz''"
  using getCharacterSet_fallback
    [of "\<lparr>length_opt = 16, includeUppercase = False, includeLowercase = False,
          includeNumbers = False, includeSymbols = False\<rparr>"]
  by simp

subsection \<open>generatePassword\<close>

lemma generate_loop_length:
  "length (generate_loop charset array n i pw) = length pw + (n - i)"
proof (induction charset array n i pw rule: generate_loop.induct)
  case (1 charset array n i pw)
  show ?case
  proof (cases "i < n")
    case True
    with "1" show ?thesis by (subst generate_loop.simps) simp
  next
    case False
    then show ?thesis by (subst generate_loop.simps) simp
  qed
qed

lemma generate_loop_set:
  "charset \<noteq> [] \<Longrightarrow> set (generate_loop charset array n i pw) \<subseteq> set pw \<union> set charset"
proof (induction charset array n i pw rule: generate_loop.induct)
  case (1 charset array n i pw)
  show ?case
  proof (cases "i < n")
    case True
    have "unat (array ! i) mod length charset < length charset"
      using "1.prems" by simp
    then have "charset ! (unat (array ! i) mod length charset) \<in> set charset"
      by (rule nth_mem)
    moreover have "set (generate_loop charset array n (Suc i)
             (pw @ [charset ! (unat (array ! i) mod length charset)]))
        \<subseteq> set (pw @ [charset ! (unat (array ! i) mod length charset)]) \<union> set charset"
      using "1.IH" [OF True "1.prems"] .
    ultimately show ?thesis
      using True by (subst generate_loop.simps) auto
  next
    case False
    then show ?thesis by (subst generate_loop.simps) simp
  qed
qed

text \<open>
  For every policy whose length is between 0 and 16384, and every random source,
  \<open>generatePassword\<close> returns a string of that length over the policy's alphabet.
\<close>

lemma generatePassword_returns:
  assumes "0 \<le> length_opt options" and "length_opt options \<le> 16384"
  shows "\<exists>pw. generatePassword random options = Inr pw
           \<and> length pw = nat (length_opt options)
           \<and> set pw \<subseteq> set (getCharacterSet options)"
  using assms generate_loop_set [OF getCharacterSet_nonempty, of options _ _ 0 "[]"]
  by (simp add: generatePassword_def Let_def generate_loop_length)

lemma charset_all:
  "getCharacterSet all_categories_16 =
     lowercase_chars @ uppercase_chars @ number_chars @ symbol_chars"
  by (simp add: getCharacterSet_def all_categories_16_def lowercase_chars_def)

lemma charset_all_length: "length (getCharacterSet all_categories_16) = 88"
  by (simp add: charset_all lowercase_chars_def uppercase_chars_def number_chars_def
      symbol_chars_def)

lemma charset_all_distinct: "distinct (getCharacterSet all_categories_16)"
  by (simp add: charset_all lowercase_chars_def uppercase_chars_def number_chars_def
      symbol_chars_def)

text \<open>
  C4, as amended. With the policy of length 16 and all four categories, and whatever the
  random source delivers, \<open>generatePassword\<close> returns a string of exactly 16
  characters, each drawn from the alphabet of the four category strings, which has 88
  characters: 26 lower-case letters, 26 upper-case letters, 10 digits and 26 symbols.
\<close>

theorem generatePassword_all_categories:
  "\<exists>pw. generatePassword random all_categories_16 = Inr pw
      \<and> length pw = 16
      \<and> set pw \<subseteq> set (getCharacterSet all_categories_16)
      \<and> getCharacterSet all_categories_16
           = lowercase_chars @ uppercase_chars @ number_chars @ symbol_chars
      \<and> card (set (getCharacterSet all_categories_16)) = 88"
proof -
  have "card (set (getCharacterSet all_categories_16)) = 88"
    using distinct_card [OF charset_all_distinct] charset_all_length by simp
  moreover have "\<exists>pw. generatePassword random all_categories_16 = Inr pw
           \<and> length pw = nat (length_opt all_categories_16)
           \<and> set pw \<subseteq> set (getCharacterSet all_categories_16)"
    by (rule generatePassword_returns) (simp_all add: all_categories_16_def)
  ultimately show ?thesis
    using charset_all by (simp add: all_categories_16_def)
qed

text \<open>
  C4 as stated fails: the alphabet of the four enabled categories does not have 94
  characters.
\<close>

theorem alphabet_has_not_94_characters:
  "card (set (getCharacterSet all_categories_16)) \<noteq> 94"
  using distinct_card [OF charset_all_distinct] charset_all_length by simp

subsection \<open>calculateStrength\<close>

lemmas strength_defs = calculateStrength_def test_lower_def test_upper_def test_digit_def
  test_other_def in_range_def exceeds_times_0_7_def times_0_7_def round_to_double_def
  double_0_7_def

text \<open>
  C6, as amended. The score of the empty string is 0. The score of \<open>password\<close> is 45:
  20 for the length, 15 for the lower-case letters and 10 because its 7 distinct characters
  are more than 70 percent of its 8; 45 is classified Fair.
\<close>

theorem strength_examples:
  "calculateStrength [] = 0
     \<and> calculateStrength ''password'' = 45
     \<and> getStrengthLevel (calculateStrength ''password'') = Fair"
  by (simp add: strength_defs getStrengthLevel_def Let_def)

text \<open>C6 as stated fails: the score of \<open>password\<close> is not 35.\<close>

theorem strength_password_is_not_35: "calculateStrength ''password'' \<noteq> 35"
  by (simp add: strength_defs Let_def)

lemma replicate_numeral: "replicate (numeral k) x = x # replicate (pred_numeral k) x"
  by (simp add: numeral_eq_Suc)

text \<open>
  C7 at a password of 90 characters with exactly 63 distinct ones. 63 is 70 percent of
  90 and does not exceed it, so the heuristic gives 40 + 45 = 85. The source compares 63
  with the double \<open>90 * 0.7\<close>, which is 62.99999999999999, and adds the 10: it returns 95.
\<close>

theorem strength_ninety_chars:
  "length ninety_chars = 90 \<and> card (set ninety_chars) = 63
     \<and> calculateStrength ninety_chars = 95 \<and> spec_score ninety_chars = 85"
proof -
  have n: "ninety_chars =
      ''abcdefghijklmnopqrstuvwxyz0123456789!@#$%^&*()_+-=[]{}|;:,.<>?~aaaaaaaaaaaaaaaaaaaaaaaaaaa''"
    by (simp add: ninety_chars_def lowercase_chars_def number_chars_def symbol_chars_def
        replicate_numeral)
  have u: "remdups ninety_chars =
      ''bcdefghijklmnopqrstuvwxyz0123456789!@#$%^&*()_+-=[]{}|;:,.<>?~a''"
    unfolding n by simp
  have l: "length ninety_chars = 90"
    unfolding n by simp
  have c: "card (set ninety_chars) = 63"
    by (simp add: length_remdups_card_conv [symmetric] u)
  have e: "exceeds_times_0_7 63 90"
    by (simp add: exceeds_times_0_7_def times_0_7_def round_to_double_def double_0_7_def Let_def)
  have t: "test_lower ninety_chars" "\<not> test_upper ninety_chars" "test_digit ninety_chars"
      "test_other ninety_chars"
    unfolding n
    by (simp_all add: test_lower_def test_upper_def test_digit_def test_other_def in_range_def)
  have ne: "ninety_chars \<noteq> []"
    unfolding n by simp
  have "calculateStrength ninety_chars = 95"
    using e t ne c by (simp add: calculateStrength_def l length_remdups_card_conv)
  moreover have "spec_score ninety_chars = 85"
    using t by (simp add: spec_score_def l c)
  ultimately show ?thesis
    using l c by simp
qed

text \<open>
  Below 90 characters the rounding makes no difference, and the source computes the
  heuristic of the specification.
\<close>

lemma product_exact_below_90:
  "product_exact 0 \<and> product_exact 1 \<and> list_all product_exact [2..<90]"
  by (simp add: product_exact_def times_0_7_def round_to_double_def double_0_7_def Let_def)

lemma exceeds_times_0_7_iff:
  assumes "product_exact n"
  shows "exceeds_times_0_7 u n \<longleftrightarrow> 7 * n < 10 * u"
proof -
  have "exceeds_times_0_7 u n \<longleftrightarrow> times_0_7 n div 2 ^ 53 < u"
    by (simp add: exceeds_times_0_7_def div_less_iff_less_mult)
  also have "\<dots> \<longleftrightarrow> 7 * n div 10 < u"
    using assms by (simp add: product_exact_def)
  also have "\<dots> \<longleftrightarrow> 7 * n < 10 * u"
    by (simp add: div_less_iff_less_mult mult.commute)
  finally show ?thesis .
qed

lemma calculateStrength_below_90:
  assumes "length pw < 90"
  shows "calculateStrength pw = spec_score pw"
proof -
  have "length pw = 0 \<or> length pw = 1 \<or> (2 \<le> length pw \<and> length pw < 90)"
    using assms by arith
  then have "length pw = 0 \<or> length pw = 1 \<or> length pw \<in> set [2..<90]"
    by (simp only: set_upt atLeastLessThan_iff)
  with product_exact_below_90 have "product_exact (length pw)"
    unfolding list_all_iff by metis
  then have e: "exceeds_times_0_7 (length (remdups pw)) (length pw)
      \<longleftrightarrow> 7 * length pw < 10 * card (set pw)"
    by (simp add: exceeds_times_0_7_iff length_remdups_card_conv)
  show ?thesis
    by (cases "pw = []")
      (simp_all add: calculateStrength_def spec_score_def e Let_def
        test_lower_def test_upper_def test_digit_def test_other_def)
qed

section \<open>Properties of PasswordEntry\<close>

lemma toISOString_2024: "toISOString 1704067200000 = ''2024-01-01T00:00:00.000Z''"
  by (simp add: toISOString_def civil_from_days_def pad_def replicate_numeral Let_def
      cong: let_weak_cong prod.case_cong_weak)

lemma toISOString_2026: "toISOString 1767225600000 = ''2026-01-01T00:00:00.000Z''"
  by (simp add: toISOString_def civil_from_days_def pad_def replicate_numeral Let_def
      cong: let_weak_cong prod.case_cong_weak)

lemma toISOString_set_back: "toISOString 1767225599999 = ''2025-12-31T23:59:59.999Z''"
  by (simp add: toISOString_def civil_from_days_def pad_def replicate_numeral Let_def
      cong: let_weak_cong prod.case_cong_weak)

lemma digits_2024: "digits 1704067200000 = ''1704067200000''"
  by simp

lemma digits_2026: "digits 1767225600000 = ''1767225600000''"
  by simp

lemma new_2024:
  "fst (PasswordEntry_new w u p n None clock_2024) =
     \<lparr>id_field = ''1704067200000'', website = w, username = u, password = p, notes_field = n,
      createdAt = ''2024-01-01T00:00:00.000Z'', updatedAt = ''2024-01-01T00:00:00.000Z''\<rparr>"
  by (simp add: PasswordEntry_new_def read_clock_def clock_2024_def toISOString_2024
      del: digits.simps add: digits_2024)

lemma new_2026:
  "fst (PasswordEntry_new w u p n None clock_2026) =
     \<lparr>id_field = ''1767225600000'', website = w, username = u, password = p, notes_field = n,
      createdAt = ''2026-01-01T00:00:00.000Z'', updatedAt = ''2026-01-01T00:00:00.000Z''\<rparr>"
  by (simp add: PasswordEntry_new_def read_clock_def clock_2026_def toISOString_2026
      del: digits.simps add: digits_2026)

lemma clock_2026_after_new: "snd (PasswordEntry_new w u p n None clock_2026) = clock_2026"
  by (simp add: PasswordEntry_new_def read_clock_def clock_2026_def)

lemma github_entry_eq:
  "github_entry =
     \<lparr>id_field = ''1704067200000'', website = ''GitHub'', username = ''alice'',
      password = ''hunter2'', notes_field = None, createdAt = ''2024-01-01T00:00:00.000Z'',
      updatedAt = ''2024-01-01T00:00:00.000Z''\<rparr>"
  by (simp add: github_entry_def github_data_def new_2024)

lemma toJSON_same: "toJSON e = e"
  by (simp add: toJSON_def)

text \<open>
  What \<open>fromJSON\<close> builds from a plain record with a non-empty id: six fields are
  the record's, \<open>createdAt\<close> is the clock's reading at the call.
\<close>

lemma fromJSON_fields:
  "id_field data \<noteq> [] \<Longrightarrow>
   fst (fromJSON data c) =
     \<lparr>id_field = id_field data, website = website data, username = username data,
      password = password data, notes_field = notes_field data,
      createdAt = toISOString (c 0), updatedAt = updatedAt data\<rparr>"
  by (simp add: fromJSON_def PasswordEntry_new_def read_clock_def split_def Let_def)

text \<open>
  C1 at the entry created on 2024-01-01 and deserialized on 2026-01-01:
  \<open>fromJSON (toJSON entry)\<close> has the entry's id, website, username, password, notes
  and updatedAt, but its createdAt is the time of the deserialization, not the entry's.
\<close>

theorem fromJSON_toJSON_resets_createdAt:
  "createdAt github_entry = ''2024-01-01T00:00:00.000Z''
   \<and> fst (fromJSON (toJSON github_entry) clock_2026)
       = github_entry\<lparr>createdAt := ''2026-01-01T00:00:00.000Z''\<rparr>
   \<and> fst (fromJSON (toJSON github_entry) clock_2026) \<noteq> github_entry"
  by (simp add: toJSON_same fromJSON_fields github_entry_eq clock_2026_def toISOString_2026)

text \<open>
  C2 at the same entry: the record that \<open>fromJSON\<close> reconstructs on 2026-01-01 has
  updatedAt 2024-01-01 and createdAt 2026-01-01, so its updatedAt is before its createdAt.
\<close>

theorem fromJSON_updatedAt_before_createdAt:
  "updatedAt (fst (fromJSON (toJSON github_entry) clock_2026)) = ''2024-01-01T00:00:00.000Z''
   \<and> createdAt (fst (fromJSON (toJSON github_entry) clock_2026)) = ''2026-01-01T00:00:00.000Z''
   \<and> updatedAt (fst (fromJSON (toJSON github_entry) clock_2026))
       < createdAt (fst (fromJSON (toJSON github_entry) clock_2026))"
  by (simp add: toJSON_same fromJSON_fields github_entry_eq clock_2026_def toISOString_2026)

text \<open>
  C8, as amended. For every record, every partial update and every clock: each of
  website, username, password and notes whose key is present in the partial with a
  string (the empty string included) is overwritten with that string; a key that is
  absent, or present with the value \<open>undefined\<close>, leaves the field untouched; id and
  createdAt stay; and updatedAt becomes the clock's reading at the call, also for the
  empty partial, after which all other fields are unchanged. The new updatedAt is at or
  after the previous one exactly when that reading is not earlier than the previous
  updatedAt.
\<close>

theorem update_semantics:
  "website (fst (PasswordEntry_update data c entry))
       = (case website_key data of
            Absent \<Rightarrow> website entry
          | Present None \<Rightarrow> website entry
          | Present (Some v) \<Rightarrow> v)
   \<and> username (fst (PasswordEntry_update data c entry))
       = (case username_key data of
            Absent \<Rightarrow> username entry
          | Present None \<Rightarrow> username entry
          | Present (Some v) \<Rightarrow> v)
   \<and> password (fst (PasswordEntry_update data c entry))
       = (case password_key data of
            Absent \<Rightarrow> password entry
          | Present None \<Rightarrow> password entry
          | Present (Some v) \<Rightarrow> v)
   \<and> notes_field (fst (PasswordEntry_update data c entry))
       = (case notes_key data of
            Absent \<Rightarrow> notes_field entry
          | Present None \<Rightarrow> notes_field entry
          | Present (Some v) \<Rightarrow> Some v)
   \<and> id_field (fst (PasswordEntry_update data c entry)) = id_field entry
   \<and> createdAt (fst (PasswordEntry_update data c entry)) = createdAt entry
   \<and> updatedAt (fst (PasswordEntry_update data c entry)) = toISOString (c 0)
   \<and> fst (PasswordEntry_update empty_update c entry) = entry\<lparr>updatedAt := toISOString (c 0)\<rparr>
   \<and> (updatedAt entry \<le> updatedAt (fst (PasswordEntry_update data c entry))
        \<longleftrightarrow> updatedAt entry \<le> toISOString (c 0))"
  by (simp add: PasswordEntry_update_def read_clock_def read_key_def empty_update_def Let_def
      split: key.split option.split)

text \<open>
  The entry of 2024, updated on 2026-01-01 with a partial whose website key holds the
  empty string, whose username key is present with \<open>undefined\<close> and whose other keys
  are absent: the website becomes empty, username, password and notes stay, and updatedAt
  moves forward from 2024 to 2026.
\<close>

theorem update_semantics_witness:
  "website (fst (PasswordEntry_update
       (empty_update\<lparr>website_key := Present (Some []), username_key := Present None\<rparr>)
       clock_2026 github_entry)) = []
   \<and> username (fst (PasswordEntry_update
       (empty_update\<lparr>website_key := Present (Some []), username_key := Present None\<rparr>)
       clock_2026 github_entry)) = ''alice''
   \<and> password (fst (PasswordEntry_update
       (empty_update\<lparr>website_key := Present (Some []), username_key := Present None\<rparr>)
       clock_2026 github_entry)) = ''hunter2''
   \<and> notes_field (fst (PasswordEntry_update
       (empty_update\<lparr>website_key := Present (Some []), username_key := Present None\<rparr>)
       clock_2026 github_entry)) = None
   \<and> updatedAt (fst (PasswordEntry_update
       (empty_update\<lparr>website_key := Present (Some []), username_key := Present None\<rparr>)
       clock_2026 github_entry)) = ''2026-01-01T00:00:00.000Z''
   \<and> updatedAt github_entry
       \<le> updatedAt (fst (PasswordEntry_update
             (empty_update\<lparr>website_key := Present (Some []), username_key := Present None\<rparr>)
             clock_2026 github_entry))"
  using update_semantics
    [of "empty_update\<lparr>website_key := Present (Some []), username_key := Present None\<rparr>"
      clock_2026 github_entry]
  by (simp add: empty_update_def github_entry_eq clock_2026_def toISOString_2026)

text \<open>
  C8 as stated fails twice. A key that is present with the value \<open>undefined\<close> does not
  overwrite: updating the entry with the notes \<open>work account\<close> by a partial whose notes
  key is present and \<open>undefined\<close> leaves the notes as they were, where overwriting would
  leave the entry without notes. And an entry constructed at 2026-01-01T00:00:00.000Z and
  updated with the empty partial when the wall clock reads one millisecond less (it was
  set back in between) ends with an updatedAt before its previous one.
\<close>

theorem update_counterexample:
  "notes_field work_entry = Some ''work account''
   \<and> notes_field (fst (PasswordEntry_update (empty_update\<lparr>notes_key := Present None\<rparr>)
         clock_2026 work_entry)) = Some ''work account''
   \<and> notes_field (fst (PasswordEntry_update (empty_update\<lparr>notes_key := Present None\<rparr>)
         clock_2026 work_entry)) \<noteq> None
   \<and> updatedAt (constructed github_data clock_2026) = ''2026-01-01T00:00:00.000Z''
   \<and> updatedAt (fst (PasswordEntry_update empty_update clock_set_back
         (constructed github_data clock_2026))) = ''2025-12-31T23:59:59.999Z''
   \<and> updatedAt (fst (PasswordEntry_update empty_update clock_set_back
         (constructed github_data clock_2026)))
       < updatedAt (constructed github_data clock_2026)"
  by (simp add: new_2026 PasswordEntry_update_def read_clock_def read_key_def empty_update_def
      work_entry_def clock_set_back_def toISOString_set_back)

section \<open>Properties of the store\<close>

subsection \<open>Flushing to the backend\<close>

lemma LocalStorageService_never_throws: "fst (LocalStorageService_savePasswords pws ls) = None"
  by (simp add: LocalStorageService_savePasswords_def Let_def)

lemma LocalStorageService_leaves:
  "snd (LocalStorageService_savePasswords pws ls) =
     (if setItem_throws ls (map toJSON pws)
      then ls\<lparr>console := console ls @ [''Error during saving passwords:'']\<rparr>
      else ls\<lparr>item := Some (map toJSON pws)\<rparr>)"
  by (simp add: LocalStorageService_savePasswords_def handleError_def Let_def)

lemma addPassword_outcome:
  "fst (addPassword S d c m) =
     (case fst (S (passwords m @ [constructed d c]) (storage m)) of
        Some e \<Rightarrow> Inl e
      | None \<Rightarrow> Inr (constructed d c))"
  by (simp add: addPassword_def Manager_savePasswords_def split_def Let_def)

lemma addPassword_passwords:
  "passwords (fst (snd (addPassword S d c m))) = passwords m @ [constructed d c]"
  by (simp add: addPassword_def Manager_savePasswords_def split_def Let_def)

lemma updatePassword_outcome:
  "find (\<lambda>p. id_field p = i) (passwords m) = Some found \<Longrightarrow>
   fst (updatePassword S i u c m) =
     (case fst (S (update_first (\<lambda>p. id_field p = i) (fst (PasswordEntry_update u c found))
                    (passwords m)) (storage m)) of
        Some e \<Rightarrow> Inl e
      | None \<Rightarrow> Inr (Some (fst (PasswordEntry_update u c found))))"
  by (simp add: updatePassword_def Manager_savePasswords_def split_def Let_def)

lemma updatePassword_passwords:
  "find (\<lambda>p. id_field p = i) (passwords m) = Some found \<Longrightarrow>
   passwords (fst (snd (updatePassword S i u c m))) =
     update_first (\<lambda>p. id_field p = i) (fst (PasswordEntry_update u c found)) (passwords m)"
  by (simp add: updatePassword_def Manager_savePasswords_def split_def Let_def)

lemma filter_shorter:
  "list_ex (\<lambda>p. id_field p = i) pws \<Longrightarrow>
     length (filter (\<lambda>p. id_field p \<noteq> i) pws) < length pws"
  by (induction pws) (auto simp: less_Suc_eq_le)

lemma deletePassword_outcome:
  "list_ex (\<lambda>p. id_field p = i) (passwords m) \<Longrightarrow>
   fst (deletePassword S i m) =
     (case fst (S (filter (\<lambda>p. id_field p \<noteq> i) (passwords m)) (storage m)) of
        Some e \<Rightarrow> Inl e
      | None \<Rightarrow> Inr True)"
  by (simp add: deletePassword_def Manager_savePasswords_def split_def Let_def filter_shorter)

lemma deletePassword_passwords:
  "passwords (snd (deletePassword S i m)) = filter (\<lambda>p. id_field p \<noteq> i) (passwords m)"
  by (simp add: deletePassword_def Manager_savePasswords_def split_def Let_def)

text \<open>
  C3, as amended. The store does not catch what the backend's \<open>savePasswords\<close> throws:
  for every backend, \<open>addPassword\<close>, \<open>updatePassword\<close> on a present id and
  \<open>deletePassword\<close> on a present id end with the error \<open>savePasswords\<close> throws on the
  flushed collection, and return the new entry, the updated entry and true when it throws
  nothing; either way the in-memory collection keeps the mutation already applied.
  \<open>LocalStorageService.savePasswords\<close> catches a failed write itself, logs it to the
  console and never throws (a write that succeeds replaces the stored value), so with it
  the three operations always return their success-shaped result.
\<close>

theorem flush_failure_outcomes:
  "fst (LocalStorageService_savePasswords pws ls) = None
   \<and> snd (LocalStorageService_savePasswords pws ls) =
       (if setItem_throws ls (map toJSON pws)
        then ls\<lparr>console := console ls @ [''Error during saving passwords:'']\<rparr>
        else ls\<lparr>item := Some (map toJSON pws)\<rparr>)
   \<and> passwords (fst (snd (addPassword S d c m))) = passwords m @ [constructed d c]
   \<and> fst (addPassword S d c m) =
       (case fst (S (passwords m @ [constructed d c]) (storage m)) of
          Some e \<Rightarrow> Inl e
        | None \<Rightarrow> Inr (constructed d c))
   \<and> (find (\<lambda>p. id_field p = i) (passwords m) = Some found \<longrightarrow>
        passwords (fst (snd (updatePassword S i u c m))) =
          update_first (\<lambda>p. id_field p = i) (fst (PasswordEntry_update u c found)) (passwords m)
        \<and> fst (updatePassword S i u c m) =
            (case fst (S (update_first (\<lambda>p. id_field p = i)
                            (fst (PasswordEntry_update u c found)) (passwords m)) (storage m)) of
               Some e \<Rightarrow> Inl e
             | None \<Rightarrow> Inr (Some (fst (PasswordEntry_update u c found)))))
   \<and> (list_ex (\<lambda>p. id_field p = i) (passwords m) \<longrightarrow>
        passwords (snd (deletePassword S i m)) = filter (\<lambda>p. id_field p \<noteq> i) (passwords m)
        \<and> fst (deletePassword S i m) =
            (case fst (S (filter (\<lambda>p. id_field p \<noteq> i) (passwords m)) (storage m)) of
               Some e \<Rightarrow> Inl e
             | None \<Rightarrow> Inr True))"
  by (simp add: LocalStorageService_never_throws LocalStorageService_leaves
      addPassword_outcome addPassword_passwords
      updatePassword_outcome updatePassword_passwords deletePassword_outcome
      deletePassword_passwords)

text \<open>
  A store that holds the entry of 2024, first over a backend whose \<open>savePasswords\<close>
  throws a quota error: adding, updating and deleting end with that error, and the
  collection has the added entry, the refreshed entry, and no entry. Then over
  \<open>LocalStorageService\<close> on a \<open>localStorage\<close> that refuses every write: the same
  three operations return the new entry, the updated entry and true.
\<close>

theorem flush_failure_outcomes_witness:
  "find (\<lambda>p. id_field p = ''1704067200000'') [github_entry] = Some github_entry
   \<and> list_ex (\<lambda>p. id_field p = ''1704067200000'') [github_entry]
   \<and> fst (addPassword (throwing_save (StorageError ''QuotaExceededError'')) gitlab_data
           clock_2026 \<lparr>passwords = [github_entry], storage = ()\<rparr>)
       = Inl (StorageError ''QuotaExceededError'')
   \<and> passwords (fst (snd (addPassword (throwing_save (StorageError ''QuotaExceededError''))
           gitlab_data clock_2026 \<lparr>passwords = [github_entry], storage = ()\<rparr>)))
       = [github_entry, constructed gitlab_data clock_2026]
   \<and> fst (updatePassword (throwing_save (StorageError ''QuotaExceededError''))
           ''1704067200000'' empty_update clock_2026
           \<lparr>passwords = [github_entry], storage = ()\<rparr>)
       = Inl (StorageError ''QuotaExceededError'')
   \<and> passwords (fst (snd (updatePassword (throwing_save (StorageError ''QuotaExceededError''))
           ''1704067200000'' empty_update clock_2026
           \<lparr>passwords = [github_entry], storage = ()\<rparr>)))
       = [github_entry\<lparr>updatedAt := ''2026-01-01T00:00:00.000Z''\<rparr>]
   \<and> fst (deletePassword (throwing_save (StorageError ''QuotaExceededError''))
           ''1704067200000'' \<lparr>passwords = [github_entry], storage = ()\<rparr>)
       = Inl (StorageError ''QuotaExceededError'')
   \<and> passwords (snd (deletePassword (throwing_save (StorageError ''QuotaExceededError''))
           ''1704067200000'' \<lparr>passwords = [github_entry], storage = ()\<rparr>))
       = []
   \<and> fst (addPassword LocalStorageService_savePasswords gitlab_data clock_2026
           \<lparr>passwords = [github_entry], storage = full_localStorage\<rparr>)
       = Inr (constructed gitlab_data clock_2026)
   \<and> fst (updatePassword LocalStorageService_savePasswords ''1704067200000'' empty_update
           clock_2026 \<lparr>passwords = [github_entry], storage = full_localStorage\<rparr>)
       = Inr (Some (github_entry\<lparr>updatedAt := ''2026-01-01T00:00:00.000Z''\<rparr>))
   \<and> fst (deletePassword LocalStorageService_savePasswords ''1704067200000''
           \<lparr>passwords = [github_entry], storage = full_localStorage\<rparr>)
       = Inr True"
proof -
  have f: "find (\<lambda>p. id_field p = ''1704067200000'') [github_entry] = Some github_entry"
    by (simp add: github_entry_eq)
  have l: "list_ex (\<lambda>p. id_field p = ''1704067200000'') [github_entry]"
    by (simp add: github_entry_eq)
  have u: "fst (PasswordEntry_update empty_update clock_2026 github_entry)
      = github_entry\<lparr>updatedAt := ''2026-01-01T00:00:00.000Z''\<rparr>"
    by (simp add: PasswordEntry_update_def read_clock_def read_key_def empty_update_def
        clock_2026_def toISOString_2026)
  have i: "id_field github_entry = ''1704067200000''"
    by (simp add: github_entry_eq)
  note t = flush_failure_outcomes
    [of _ _ "throwing_save (StorageError ''QuotaExceededError'')" gitlab_data clock_2026
      "\<lparr>passwords = [github_entry], storage = ()\<rparr>" "''1704067200000''" github_entry
      empty_update]
  note s = flush_failure_outcomes
    [of "[github_entry]" full_localStorage LocalStorageService_savePasswords gitlab_data
      clock_2026 "\<lparr>passwords = [github_entry], storage = full_localStorage\<rparr>"
      "''1704067200000''" github_entry empty_update]
  show ?thesis
    using t s f l by (simp add: throwing_save_def u i LocalStorageService_never_throws)
qed

text \<open>
  C3 as stated fails: over a backend whose \<open>savePasswords\<close> throws, \<open>addPassword\<close>
  does not return the new entry; the error leaves the store.
\<close>

theorem addPassword_throws_with_failing_backend:
  "fst (addPassword (throwing_save (StorageError ''QuotaExceededError'')) github_data clock_2026
          \<lparr>passwords = [], storage = ()\<rparr>)
     = Inl (StorageError ''QuotaExceededError'')"
  by (simp add: addPassword_outcome throwing_save_def)

subsection \<open>Identifiers\<close>

text \<open>
  C10 at two calls of \<open>addPassword\<close> within the same millisecond (the clock reads
  1767225600000 at both): the two entries of the store have the same id.
\<close>

theorem same_millisecond_same_id:
  "map id_field
     (passwords (fst (snd
        (addPassword LocalStorageService_savePasswords gitlab_data
           (snd (snd (addPassword LocalStorageService_savePasswords github_data clock_2026
                        \<lparr>passwords = [], storage = full_localStorage\<rparr>)))
           (fst (snd (addPassword LocalStorageService_savePasswords github_data clock_2026
                        \<lparr>passwords = [], storage = full_localStorage\<rparr>)))))))
   = [''1767225600000'', ''1767225600000'']"
proof -
  have c: "snd (snd (addPassword LocalStorageService_savePasswords github_data clock_2026
                        \<lparr>passwords = [], storage = full_localStorage\<rparr>)) = clock_2026"
    by (simp add: addPassword_def split_def Let_def clock_2026_after_new)
  show ?thesis
    unfolding c by (simp add: addPassword_passwords new_2026)
qed

subsection \<open>Search\<close>

lemma trim_empty_iff: "trim t = [] \<longleftrightarrow> whitespace_only t"
proof -
  have inner: "dropWhile is_whitespace (rev (dropWhile is_whitespace t)) = []
      \<longleftrightarrow> dropWhile is_whitespace t = []"
  proof
    assume a: "dropWhile is_whitespace (rev (dropWhile is_whitespace t)) = []"
    show "dropWhile is_whitespace t = []"
    proof (rule ccontr)
      assume n: "dropWhile is_whitespace t \<noteq> []"
      then have "\<not> is_whitespace (hd (dropWhile is_whitespace t))"
        by (rule hd_dropWhile)
      moreover have "hd (dropWhile is_whitespace t) \<in> set (rev (dropWhile is_whitespace t))"
        using n by simp
      ultimately show False
        using a by (auto simp: dropWhile_eq_Nil_conv)
    qed
  next
    assume e: "dropWhile is_whitespace t = []"
    show "dropWhile is_whitespace (rev (dropWhile is_whitespace t)) = []"
      unfolding e by simp
  qed
  have "trim t = [] \<longleftrightarrow> dropWhile is_whitespace (rev (dropWhile is_whitespace t)) = []"
    by (simp add: trim_def)
  also have "\<dots> \<longleftrightarrow> dropWhile is_whitespace t = []"
    by (rule inner)
  also have "\<dots> \<longleftrightarrow> whitespace_only t"
    by (simp add: dropWhile_eq_Nil_conv whitespace_only_def list_all_iff)
  finally show ?thesis .
qed

lemma sublist_iff_take_drop:
  "sublist xs ys \<longleftrightarrow> (\<exists>i. i + length xs \<le> length ys \<and> take (length xs) (drop i ys) = xs)"
proof
  assume "sublist xs ys"
  then obtain ps ss where "ys = ps @ xs @ ss"
    by (auto simp: sublist_def)
  then have "length ps + length xs \<le> length ys \<and> take (length xs) (drop (length ps) ys) = xs"
    by simp
  then show "\<exists>i. i + length xs \<le> length ys \<and> take (length xs) (drop i ys) = xs" ..
next
  assume "\<exists>i. i + length xs \<le> length ys \<and> take (length xs) (drop i ys) = xs"
  then obtain i where i: "take (length xs) (drop i ys) = xs"
    by blast
  have "drop i ys = take (length xs) (drop i ys) @ drop (length xs) (drop i ys)"
    by (simp only: append_take_drop_id)
  with i have "drop i ys = xs @ drop (length xs) (drop i ys)"
    by simp
  moreover have "ys = take i ys @ drop i ys"
    by simp
  ultimately have "ys = take i ys @ xs @ drop (length xs) (drop i ys)"
    by metis
  then show "sublist xs ys"
    unfolding sublist_def by blast
qed

lemma contains_ignoring_case_iff:
  "contains_ignoring_case s t \<longleftrightarrow>
     (\<exists>i. i + length t \<le> length s \<and> toLowerCase (take (length t) (drop i s)) = toLowerCase t)"
proof
  assume "contains_ignoring_case s t"
  then show "\<exists>i. i + length t \<le> length s
      \<and> toLowerCase (take (length t) (drop i s)) = toLowerCase t"
    unfolding contains_ignoring_case_def equal_ignoring_case_def list_ex_iff by blast
next
  assume "\<exists>i. i + length t \<le> length s
      \<and> toLowerCase (take (length t) (drop i s)) = toLowerCase t"
  then obtain i where i: "i + length t \<le> length s"
      "toLowerCase (take (length t) (drop i s)) = toLowerCase t"
    by blast
  from i(1) have "i < Suc (length s)" by arith
  then have "i \<in> set [0..<Suc (length s)]"
    by (simp only: set_upt atLeastLessThan_iff) simp
  with i show "contains_ignoring_case s t"
    unfolding contains_ignoring_case_def equal_ignoring_case_def list_ex_iff by blast
qed

lemma includes_lower_iff:
  "includes_str (toLowerCase s) (toLowerCase t) \<longleftrightarrow> contains_ignoring_case s t"
  by (simp add: contains_ignoring_case_iff includes_str_def sublist_iff_take_drop
      toLowerCase_def take_map drop_map)

text \<open>
  C5, as amended, for strings over the code units 0 to 255 (ASCII and Latin-1), which is
  what \<open>string\<close> models here. For every collection state, the store's search with an empty or
  whitespace-only term returns the same records as \<open>getAllPasswords\<close>, and with any other
  term exactly the records whose website or username contains the term as a
  case-insensitive substring, in the collection's order. The network-backed search fails
  with the transport error when the list request fails; otherwise it returns all fetched
  records for an empty or whitespace-only term, and for any other term the fetched records
  whose website, username or notes contain it as a case-insensitive substring.
\<close>

theorem search_semantics:
  "searchPasswords t m =
     (if whitespace_only t then getAllPasswords m
      else filter (\<lambda>p. contains_ignoring_case (website p) t
                      \<or> contains_ignoring_case (username p) t)
             (passwords m))
   \<and> api_searchPasswords (Inl e) t c = (Inl e, c)
   \<and> fst (api_searchPasswords (Inr data) t c) =
       Inr (if whitespace_only t then fst (fromJSON_all data c)
            else filter (\<lambda>p. contains_ignoring_case (website p) t
                            \<or> contains_ignoring_case (username p) t
                            \<or> (case notes_field p of
                                  None \<Rightarrow> False
                                | Some n \<Rightarrow> contains_ignoring_case n t))
                   (fst (fromJSON_all data c)))"
proof -
  have "searchPasswords t m =
     (if whitespace_only t then getAllPasswords m
      else filter (\<lambda>p. contains_ignoring_case (website p) t
                      \<or> contains_ignoring_case (username p) t)
             (passwords m))"
    by (simp add: searchPasswords_def trim_empty_iff includes_lower_iff Let_def)
  moreover have "api_searchPasswords (Inl e) t c = (Inl e, c)"
    by (simp add: api_searchPasswords_def api_getAllPasswords_def)
  moreover have "fst (api_searchPasswords (Inr data) t c) =
       Inr (if whitespace_only t then fst (fromJSON_all data c)
            else filter (\<lambda>p. contains_ignoring_case (website p) t
                            \<or> contains_ignoring_case (username p) t
                            \<or> (case notes_field p of
                                  None \<Rightarrow> False
                                | Some n \<Rightarrow> contains_ignoring_case n t))
                   (fst (fromJSON_all data c)))"
    by (simp add: api_searchPasswords_def api_getAllPasswords_def trim_empty_iff
        includes_lower_iff Let_def split_def cong: option.case_cong)
  ultimately show ?thesis by simp
qed

lemmas search_eval = includes_str_def sublist_code toLowerCase_def toLowerCase_char_def
  is_uppercase_def trim_def is_whitespace_def

text \<open>
  C5 as stated fails: for the one entry with website GitHub, username alice and the notes
  \<open>work account\<close>, the store's search for \<open>work\<close> returns nothing, and the
  network-backed search over the same record returns the entry.
\<close>

theorem api_search_matches_notes:
  "searchPasswords ''work'' \<lparr>passwords = [work_entry], storage = ()\<rparr> = []
   \<and> fst (api_searchPasswords (Inr (map toJSON [work_entry])) ''work'' clock_2026)
       = Inr [work_entry\<lparr>createdAt := ''2026-01-01T00:00:00.000Z''\<rparr>]"
proof -
  have f: "fst (fromJSON work_entry clock_2026)
      = work_entry\<lparr>createdAt := ''2026-01-01T00:00:00.000Z''\<rparr>"
    by (simp add: fromJSON_fields work_entry_def clock_2026_def toISOString_2026)
  have "searchPasswords ''work'' \<lparr>passwords = [work_entry], storage = ()\<rparr> = []"
    by (simp add: searchPasswords_def work_entry_def search_eval Let_def)
  moreover have "fst (api_searchPasswords (Inr (map toJSON [work_entry])) ''work'' clock_2026)
       = Inr [work_entry\<lparr>createdAt := ''2026-01-01T00:00:00.000Z''\<rparr>]"
    by (simp add: api_searchPasswords_def api_getAllPasswords_def toJSON_same split_def f Let_def)
      (simp add: work_entry_def search_eval)
  ultimately show ?thesis by simp
qed

end
